theory Spec2Isabelle
  imports Main "HOL-Library.Word" "HOL-Library.FSet" "HOL-Library.Sublist"
begin

section \<open>Data model\<close>

text \<open>
  \<open>common.Hash\<close> is a 32-byte array; Go's \<open>uint64\<close> is a 64-bit word whose \<open>+\<close>,
  \<open>-\<close> and \<open>++\<close> wrap around and whose comparisons are unsigned.
\<close>

type_synonym hash = "256 word"
type_synonym uint64 = "64 word"

text \<open>
  A Go \<open>error\<close> value, as far as the transaction manager looks at it: the text returned by
  \<open>err.Error()\<close>, and whether \<open>errors.Is(err, context.Canceled)\<close> holds. A nil error is
  \<open>None\<close> of \<open>go_error option\<close>.
\<close>

datatype go_error = GoError (err_is_canceled: bool) (err_msg: string)

datatype panic = Panic string

text \<open>\<open>strings.Contains(s, substr)\<close>: \<open>substr\<close> occurs in \<open>s\<close> as a contiguous run.\<close>

fun Contains :: "string \<Rightarrow> string \<Rightarrow> bool" where
  "Contains [] substr = (substr = [])"
| "Contains (c # cs) substr = (prefix substr (c # cs) \<or> Contains cs substr)"

subsection \<open>send\_state.go\<close>

text \<open>
  \<open>minedTxs\<close> is a \<open>map[common.Hash]struct{}\<close>, that is a finite set of hashes, and
  \<open>len(s.minedTxs)\<close> is its cardinality. The mutex \<open>mu\<close> makes every method one atomic
  step; the methods are modelled as functions from the state before to the state after.
\<close>

record SendState =
  minedTxs :: "hash fset"
  nonceTooLowCount :: uint64
  safeAbortNonceTooLowCount :: uint64

definition NewSendState :: "uint64 \<Rightarrow> panic + SendState" where
  "NewSendState safeAbort =
     (if safeAbort = 0 then Inl (Panic ''txmgr: safeAbortNonceTooLowCount must be > 0'')
      else Inr \<lparr>minedTxs = {||}, nonceTooLowCount = 0,
                safeAbortNonceTooLowCount = safeAbort\<rparr>)"

text \<open>
  \<open>core.ErrNonceTooLow\<close> belongs to go-ethereum and is not part of this repository: its
  message is the parameter \<open>errNonceTooLow\<close> of every function that classifies an error.
\<close>

definition ProcessSendError :: "string \<Rightarrow> go_error option \<Rightarrow> SendState \<Rightarrow> SendState" where
  "ProcessSendError errNonceTooLow err s =
     (case err of
        None \<Rightarrow> s
      | Some e \<Rightarrow>
          if \<not> Contains (err_msg e) errNonceTooLow then s
          else s\<lparr>nonceTooLowCount := nonceTooLowCount s + 1\<rparr>)"

definition TxMined :: "hash \<Rightarrow> SendState \<Rightarrow> SendState" where
  "TxMined txHash s = s\<lparr>minedTxs := finsert txHash (minedTxs s)\<rparr>"

definition TxNotMined :: "hash \<Rightarrow> SendState \<Rightarrow> SendState" where
  "TxNotMined txHash s =
     (let wasMined = (txHash |\<in>| minedTxs s);
          s' = s\<lparr>minedTxs := minedTxs s |-| {|txHash|}\<rparr>
      in if fcard (minedTxs s') = 0 \<and> wasMined then s'\<lparr>nonceTooLowCount := 0\<rparr> else s')"

definition ShouldAbortImmediately :: "SendState \<Rightarrow> bool" where
  "ShouldAbortImmediately s =
     (if fcard (minedTxs s) > 0 then False
      else nonceTooLowCount s \<ge> safeAbortNonceTooLowCount s)"

definition IsWaitingForConfirmation :: "SendState \<Rightarrow> bool" where
  "IsWaitingForConfirmation s = (fcard (minedTxs s) > 0)"

text \<open>
  The three mutating operations, and their application in any order: the states the
  methods can produce from a freshly constructed one.
\<close>

datatype send_op =
    OpProcessSendError "go_error option"
  | OpTxMined hash
  | OpTxNotMined hash

fun apply_op :: "string \<Rightarrow> SendState \<Rightarrow> send_op \<Rightarrow> SendState" where
  "apply_op errNonceTooLow s (OpProcessSendError err) = ProcessSendError errNonceTooLow err s"
| "apply_op errNonceTooLow s (OpTxMined h) = TxMined h s"
| "apply_op errNonceTooLow s (OpTxNotMined h) = TxNotMined h s"

definition apply_ops :: "string \<Rightarrow> send_op list \<Rightarrow> SendState \<Rightarrow> SendState" where
  "apply_ops errNonceTooLow ops s = foldl (apply_op errNonceTooLow) s ops"

subsection \<open>The transaction manager: configuration and construction\<close>

text \<open>
  \<open>time.Duration\<close> is a signed count of nanoseconds; the manager never computes with
  the two intervals, it only hands them to \<open>time.NewTicker\<close>.
\<close>

record Config =
  ResubmissionTimeout :: int
  ReceiptQueryInterval :: int
  NumConfirmations :: uint64
  SafeAbortNonceTooLowCount :: uint64

text \<open>
  The backend is an interface value that the manager only stores; what it answers is
  given to the model as observations (\<open>backend_reply\<close> below). The logger field is never
  set and is left out.
\<close>

record 'b SimpleTxManager =
  cfg :: Config
  backend :: 'b

definition NewSimpleTxManager :: "Config \<Rightarrow> 'b \<Rightarrow> panic + 'b SimpleTxManager" where
  "NewSimpleTxManager c b =
     (if NumConfirmations c = 0 then Inl (Panic ''txmgr: NumConfirmations must be > 0'')
      else Inr \<lparr>cfg = c, backend = b\<rparr>)"

text \<open>\<open>CalcGasFeeCap\<close> on \<open>math/big\<close> integers, which are unbounded.\<close>

definition CalcGasFeeCap :: "int \<Rightarrow> int \<Rightarrow> int" where
  "CalcGasFeeCap baseFee gasTipCap = gasTipCap + baseFee * 2"

subsection \<open>Transactions, receipts and the backend's answers\<close>

text \<open>
  Of go-ethereum's transaction the manager reads the hash, and the nonce and the two gas
  fields for its log lines only; of a receipt it reads the block number, a \<open>*big.Int\<close>.
  \<open>Uint64\<close> is \<open>(*big.Int).Uint64\<close> of Go's standard library: the low 64 bits of the
  absolute value, which is the number itself when it fits a \<open>uint64\<close>.
\<close>

record transaction =
  tx_Hash :: hash
  tx_Nonce :: uint64
  tx_GasTipCap :: int
  tx_GasFeeCap :: int

record receipt =
  TxHash :: hash
  BlockNumber :: int

definition Uint64 :: "int \<Rightarrow> uint64" where
  "Uint64 x = word_of_int \<bar>x\<bar>"

text \<open>
  One round of questions to the \<open>ReceiptSource\<close>: what \<open>TransactionReceipt\<close> returns (a
  Go pair, both components may be set) and what \<open>BlockNumber\<close> returns; the second is
  only asked when a receipt came back.
\<close>

record backend_reply =
  receipt_reply :: "receipt option \<times> go_error option"
  tip_reply :: "uint64 \<times> go_error option"

subsection \<open>waitMined\<close>

text \<open>
  What one pass through the \<open>switch\<close> of \<open>waitMined\<close> ends with. \<open>Confirmed\<close> is the
  \<open>return receipt, nil\<close>; the other four fall through to the \<open>select\<close> below the switch.
  \<open>NotYetConfirmed\<close> carries the \<open>confsRemaining\<close> that is computed and logged.
\<close>

datatype poll_outcome =
    Confirmed receipt
  | NotYetConfirmed uint64
  | TipUnavailable go_error
  | ReceiptUnavailable go_error
  | NotYetMined

definition waitMined_poll ::
  "uint64 \<Rightarrow> hash \<Rightarrow> backend_reply \<Rightarrow> SendState option \<Rightarrow> poll_outcome \<times> SendState option"
where
  "waitMined_poll numConfirmations txHash rep sendState =
     (case receipt_reply rep of
        (Some rcpt, _) \<Rightarrow>
          (let sendState' = map_option (TxMined txHash) sendState;
               txHeight = Uint64 (BlockNumber rcpt)
           in case tip_reply rep of
                (_, Some err) \<Rightarrow> (TipUnavailable err, sendState')
              | (tipHeight, None) \<Rightarrow>
                  if txHeight + numConfirmations \<le> tipHeight + 1
                  then (Confirmed rcpt, sendState')
                  else (NotYetConfirmed ((txHeight + numConfirmations) - (tipHeight + 1)),
                        sendState'))
      | (None, Some err) \<Rightarrow> (ReceiptUnavailable err, sendState)
      | (None, None) \<Rightarrow> (NotYetMined, map_option (TxNotMined txHash) sendState))"

text \<open>
  The \<open>select\<close> at the bottom of the loop: either the context is done, with its
  \<open>ctx.Err()\<close>, or the query ticker fires. The loop runs over the observations it is
  given, one backend reply and one select per pass; when they are used up and nothing
  has been returned yet the result is \<open>None\<close>: still polling.
\<close>

datatype waiter_select = CtxDone go_error | QueryTick

type_synonym wait_result = "receipt option \<times> go_error option"

fun waitMined_loop ::
  "uint64 \<Rightarrow> hash \<Rightarrow> (backend_reply \<times> waiter_select) list \<Rightarrow> SendState option
     \<Rightarrow> wait_result option \<times> SendState option"
where
  "waitMined_loop numConfirmations txHash [] sendState = (None, sendState)"
| "waitMined_loop numConfirmations txHash ((rep, sel) # obs) sendState =
     (case waitMined_poll numConfirmations txHash rep sendState of
        (Confirmed rcpt, sendState') \<Rightarrow> (Some (Some rcpt, None), sendState')
      | (_, sendState') \<Rightarrow>
          (case sel of
             CtxDone err \<Rightarrow> (Some (None, Some err), sendState')
           | QueryTick \<Rightarrow> waitMined_loop numConfirmations txHash obs sendState'))"

text \<open>
  \<open>time.NewTicker\<close> (Go's standard library) panics when its interval is not positive.
\<close>

definition NewTicker_panic :: panic where
  "NewTicker_panic = Panic ''non-positive interval for NewTicker''"

definition waitMined ::
  "transaction \<Rightarrow> int \<Rightarrow> uint64 \<Rightarrow> (backend_reply \<times> waiter_select) list \<Rightarrow> SendState option
     \<Rightarrow> panic + (wait_result option \<times> SendState option)"
where
  "waitMined tx queryInterval numConfirmations obs sendState =
     (if queryInterval \<le> 0 then Inl NewTicker_panic
      else Inr (waitMined_loop numConfirmations (tx_Hash tx) obs sendState))"

definition WaitMined ::
  "transaction \<Rightarrow> int \<Rightarrow> uint64 \<Rightarrow> (backend_reply \<times> waiter_select) list
     \<Rightarrow> panic + wait_result option"
where
  "WaitMined tx queryInterval numConfirmations obs =
     map_sum id fst (waitMined tx queryInterval numConfirmations obs None)"

subsection \<open>Send\<close>

text \<open>
  \<open>Send\<close> runs a main loop and one goroutine per \<open>go sendTxAsync()\<close>, which share the
  send state, the derived context \<open>ctxc\<close> and the receipt channel. The model is an
  interleaving of atomic steps: each step is one access to a shared object (a method of
  the send state, \<open>cancel()\<close>, a channel operation, a \<open>select\<close>), together with the
  local code up to the next one. What the caller's hooks, the backend, the tickers and
  the caller's context do is not computed but given with the event.

  \<open>ctxc_err\<close> is \<open>ctxc.Err()\<close>: \<open>None\<close> until \<open>ctxc\<close> is done. \<open>receiptChan\<close> is the
  channel of capacity 1. \<open>attempts\<close> holds, for every goroutine started, where it
  stands. \<open>returned\<close> is the pair that the \<open>return\<close> statement of \<open>Send\<close> has
  produced, \<open>None\<close> while the main loop is still running.
\<close>

definition context_Canceled :: go_error where
  "context_Canceled = GoError True ''context canceled''"

datatype attempt_pc =
    AtUpdateGasPrice
  | AtSendTx transaction
  | AtCheckAbort
  | AtPoll transaction
  | AtSelect transaction
  | AtDeliver receipt
  | Finished

record driver =
  sendState :: SendState
  ctxc_err :: "go_error option"
  receiptChan :: "receipt option"
  attempts :: "attempt_pc list"
  returned :: "wait_result option"

text \<open>\<open>cancel()\<close> of \<open>context.WithCancel\<close>: the first cancellation sets the error.\<close>

definition cancel :: "driver \<Rightarrow> driver" where
  "cancel d = (if ctxc_err d = None then d\<lparr>ctxc_err := Some context_Canceled\<rparr> else d)"

text \<open>The test applied to the errors of both hooks.\<close>

definition isCanceled :: "go_error \<Rightarrow> bool" where
  "isCanceled err = (err_is_canceled err \<or> Contains (err_msg err) ''context canceled'')"

text \<open>
  The steps of one \<open>sendTxAsync\<close>. \<open>GasPriceReturns\<close>: \<open>updateGasPrice(ctxc)\<close> comes
  back, with an error or with a transaction. \<open>SendTxReturns\<close>: \<open>sendTx(ctxc, tx)\<close>
  comes back and \<open>ProcessSendError\<close> runs; with no error \<open>waitMined\<close> is entered and
  creates its ticker. \<open>AbortChecked\<close>: \<open>ShouldAbortImmediately\<close> and the \<open>cancel()\<close> it
  guards. \<open>Polled\<close>: one pass through the switch of \<open>waitMined\<close> on the shared send
  state. \<open>WaiterSelects\<close>: the select of \<open>waitMined\<close>, \<open>True\<close> for \<open>ctx.Done()\<close>, which
  can only be taken when \<open>ctxc\<close> is done. \<open>Delivers\<close>: the non-blocking send of the
  confirmed receipt. The result is \<open>None\<close> when the step cannot be taken in that place,
  and when it panics (a panic in a goroutine ends the process).
\<close>

datatype attempt_event =
    GasPriceReturns "go_error + transaction"
  | SendTxReturns "go_error option"
  | AbortChecked
  | Polled backend_reply
  | WaiterSelects bool
  | Delivers

definition attempt_step ::
  "string \<Rightarrow> Config \<Rightarrow> attempt_event \<Rightarrow> attempt_pc \<Rightarrow> driver \<Rightarrow> (attempt_pc \<times> driver) option"
where
  "attempt_step n c ev pc d =
     (case (pc, ev) of
        (AtUpdateGasPrice, GasPriceReturns (Inl err)) \<Rightarrow>
          Some (Finished, if isCanceled err then d else cancel d)
      | (AtUpdateGasPrice, GasPriceReturns (Inr tx)) \<Rightarrow>
          Some (AtSendTx tx, d)
      | (AtSendTx tx, SendTxReturns err) \<Rightarrow>
          (let d' = d\<lparr>sendState := ProcessSendError n err (sendState d)\<rparr>
           in case err of
                Some e \<Rightarrow> Some (if isCanceled e then Finished else AtCheckAbort, d')
              | None \<Rightarrow> if ReceiptQueryInterval c \<le> 0 then None else Some (AtPoll tx, d'))
      | (AtCheckAbort, AbortChecked) \<Rightarrow>
          Some (Finished, if ShouldAbortImmediately (sendState d) then cancel d else d)
      | (AtPoll tx, Polled rep) \<Rightarrow>
          (case waitMined_poll (NumConfirmations c) (tx_Hash tx) rep (Some (sendState d)) of
             (out, sendState') \<Rightarrow>
               (let d' = (case sendState' of Some s \<Rightarrow> d\<lparr>sendState := s\<rparr> | None \<Rightarrow> d)
                in case out of
                     Confirmed rcpt \<Rightarrow> Some (AtDeliver rcpt, d')
                   | _ \<Rightarrow> Some (AtSelect tx, d')))
      | (AtSelect tx, WaiterSelects ctx_done) \<Rightarrow>
          if ctx_done then (if ctxc_err d = None then None else Some (Finished, d))
          else Some (AtPoll tx, d)
      | (AtDeliver rcpt, Delivers) \<Rightarrow>
          Some (Finished, if receiptChan d = None then d\<lparr>receiptChan := Some rcpt\<rparr> else d)
      | _ \<Rightarrow> None)"

text \<open>
  The events of the whole of \<open>Send\<close>. The first three are the cases of the main loop's
  \<open>select\<close>: the ticker, \<open>ctxc.Done()\<close> (only when \<open>ctxc\<close> is done) and the receipt
  channel (only when it holds a receipt); none of them can be taken once \<open>Send\<close> has
  executed its \<open>return\<close>, whose deferred \<open>cancel()\<close> is part of the step.
  \<open>ParentDone e\<close>: the caller's context is done and its \<open>Err()\<close> is \<open>e\<close>, which ends
  \<open>ctxc\<close> unless it is done already. \<open>Attempt i ev\<close>: goroutine \<open>i\<close> takes step \<open>ev\<close>.
\<close>

datatype event =
    Tick
  | CtxDoneSelected
  | ReceiptSelected
  | ParentDone go_error
  | Attempt nat attempt_event

fun step :: "string \<Rightarrow> Config \<Rightarrow> event \<Rightarrow> driver \<Rightarrow> driver option" where
  "step n c Tick d =
     (if returned d \<noteq> None then None
      else if IsWaitingForConfirmation (sendState d) then Some d
      else Some (d\<lparr>attempts := attempts d @ [AtUpdateGasPrice]\<rparr>))"
| "step n c CtxDoneSelected d =
     (if returned d \<noteq> None then None
      else case ctxc_err d of
             None \<Rightarrow> None
           | Some e \<Rightarrow> Some (cancel (d\<lparr>returned := Some (None, Some e)\<rparr>)))"
| "step n c ReceiptSelected d =
     (if returned d \<noteq> None then None
      else case receiptChan d of
             None \<Rightarrow> None
           | Some rcpt \<Rightarrow>
               Some (cancel (d\<lparr>receiptChan := None, returned := Some (Some rcpt, None)\<rparr>)))"
| "step n c (ParentDone e) d =
     Some (if ctxc_err d = None then d\<lparr>ctxc_err := Some e\<rparr> else d)"
| "step n c (Attempt i ev) d =
     (if i < length (attempts d)
      then case attempt_step n c ev (attempts d ! i) d of
             None \<Rightarrow> None
           | Some (pc, d') \<Rightarrow> Some (d'\<lparr>attempts := (attempts d')[i := pc]\<rparr>)
      else None)"

fun run :: "string \<Rightarrow> Config \<Rightarrow> event list \<Rightarrow> driver \<Rightarrow> driver option" where
  "run n c [] d = Some d"
| "run n c (ev # evs) d = (case step n c ev d of None \<Rightarrow> None | Some d' \<Rightarrow> run n c evs d')"

text \<open>
  \<open>Send\<close> up to its loop: the send state is constructed (which may panic), the first
  attempt is started, the resubmission ticker is created (which may panic), and then the
  events happen. \<open>Send_result\<close> is what the caller receives: the returned pair, once the
  deferred \<open>wg.Wait()\<close> has seen every goroutine finish.
\<close>

definition Send :: "string \<Rightarrow> 'b SimpleTxManager \<Rightarrow> event list \<Rightarrow> panic + driver option" where
  "Send n m evs =
     (case NewSendState (SafeAbortNonceTooLowCount (cfg m)) of
        Inl p \<Rightarrow> Inl p
      | Inr s \<Rightarrow>
          if ResubmissionTimeout (cfg m) \<le> 0 then Inl NewTicker_panic
          else Inr (run n (cfg m) evs
                 \<lparr>sendState = s, ctxc_err = None, receiptChan = None,
                  attempts = [AtUpdateGasPrice], returned = None\<rparr>))"

definition Send_result :: "driver \<Rightarrow> wait_result option" where
  "Send_result d = (if list_all (\<lambda>pc. pc = Finished) (attempts d) then returned d else None)"

text \<open>
  An event that lets a waiter see a receipt confirmed: a poll that comes back with the
  receipt and with a tip at which the test of \<open>waitMined\<close> holds.
\<close>

fun confirms :: "uint64 \<Rightarrow> receipt \<Rightarrow> event \<Rightarrow> bool" where
  "confirms numConfirmations rcpt (Attempt i (Polled rep)) =
     (case (receipt_reply rep, tip_reply rep) of
        ((Some rcpt', _), (tipHeight, None)) \<Rightarrow>
          rcpt' = rcpt \<and> Uint64 (BlockNumber rcpt) + numConfirmations \<le> tipHeight + 1
      | _ \<Rightarrow> False)"
| "confirms numConfirmations rcpt _ = False"

text \<open>
  Where the error of \<open>ctxc\<close> can come from: the caller's context (\<open>ParentDone\<close>), or a
  \<open>cancel()\<close> inside an attempt, which stands on the path of a failed \<open>updateGasPrice\<close>
  and behind the \<open>ShouldAbortImmediately\<close> test.
\<close>

fun cancels_internally :: "event \<Rightarrow> bool" where
  "cancels_internally (Attempt i (GasPriceReturns (Inl err))) = (\<not> isCanceled err)"
| "cancels_internally (Attempt i AbortChecked) = True"
| "cancels_internally _ = False"

definition ctx_origin :: "event set \<Rightarrow> go_error \<Rightarrow> bool" where
  "ctx_origin E e \<longleftrightarrow>
     ParentDone e \<in> E \<or> (e = context_Canceled \<and> (\<exists>ev\<in>E. cancels_internally ev))"

text \<open>
  What holds of the shared objects after the events \<open>E\<close>: a receipt in the channel or
  about to be sent to it has been confirmed by a poll, the error of \<open>ctxc\<close> has one of
  the origins above (or is the deferred \<open>cancel()\<close> of the return), and a returned pair
  is a confirmed receipt without an error or the error of \<open>ctxc\<close> without a receipt.
\<close>

definition send_inv :: "uint64 \<Rightarrow> event set \<Rightarrow> driver \<Rightarrow> bool" where
  "send_inv numConfirmations E d \<longleftrightarrow>
     (\<forall>r. receiptChan d = Some r \<or> AtDeliver r \<in> set (attempts d)
          \<longrightarrow> (\<exists>ev\<in>E. confirms numConfirmations r ev))
   \<and> (\<forall>e. ctxc_err d = Some e \<longrightarrow>
          ctx_origin E e \<or> (e = context_Canceled \<and> returned d \<noteq> None))
   \<and> (case returned d of
         None \<Rightarrow> True
       | Some (Some r, None) \<Rightarrow> (\<exists>ev\<in>E. confirms numConfirmations r ev)
       | Some (None, Some e) \<Rightarrow> ctxc_err d = Some e \<and> ctx_origin E e
       | Some _ \<Rightarrow> False)"

section \<open>Properties of the send state\<close>

lemma Contains_sublist: "Contains s substr \<longleftrightarrow> sublist substr s"
  by (induction s) (auto simp: sublist_Cons_right)

lemma safeAbort_apply_op [simp]:
  "safeAbortNonceTooLowCount (apply_op n s x) = safeAbortNonceTooLowCount s"
  by (cases x) (auto simp: ProcessSendError_def TxMined_def TxNotMined_def Let_def
      split: option.splits)

lemma safeAbort_apply_ops [simp]:
  "safeAbortNonceTooLowCount (apply_ops n ops s) = safeAbortNonceTooLowCount s"
  unfolding apply_ops_def by (induction ops arbitrary: s) simp_all

lemma fcard_pos_iff: "0 < fcard A \<longleftrightarrow> A \<noteq> {||}"
  by (simp add: zero_less_iff_neq_zero)

lemma ShouldAbortImmediately_iff:
  "ShouldAbortImmediately s \<longleftrightarrow>
     minedTxs s = {||} \<and> safeAbortNonceTooLowCount s \<le> nonceTooLowCount s"
  by (simp add: ShouldAbortImmediately_def fcard_pos_iff)

lemma IsWaitingForConfirmation_iff: "IsWaitingForConfirmation s \<longleftrightarrow> minedTxs s \<noteq> {||}"
  by (simp add: IsWaitingForConfirmation_def fcard_pos_iff)

text \<open>
  Claim C2. In every state that a sequence of \<open>ProcessSendError\<close>, \<open>TxMined\<close> and
  \<open>TxNotMined\<close> calls produces from a freshly constructed send state,
  \<open>ShouldAbortImmediately\<close> is true exactly when \<open>minedTxs\<close> is empty and
  \<open>nonceTooLowCount\<close> has reached the threshold, which is still the one the state was
  constructed with; so it is false whenever \<open>minedTxs\<close> is not empty.
\<close>

theorem ShouldAbortImmediately_reachable:
  assumes "NewSendState t = Inr s0"
  shows "(ShouldAbortImmediately (apply_ops n ops s0) \<longleftrightarrow>
            minedTxs (apply_ops n ops s0) = {||} \<and>
            safeAbortNonceTooLowCount (apply_ops n ops s0) \<le> nonceTooLowCount (apply_ops n ops s0))
         \<and> safeAbortNonceTooLowCount (apply_ops n ops s0) = t
         \<and> (minedTxs (apply_ops n ops s0) \<noteq> {||} \<longrightarrow> \<not> ShouldAbortImmediately (apply_ops n ops s0))"
proof -
  from assms have "safeAbortNonceTooLowCount s0 = t"
    by (auto simp: NewSendState_def split: if_splits)
  then show ?thesis
    by (simp add: ShouldAbortImmediately_iff)
qed

theorem ShouldAbortImmediately_reachable_witness:
  "NewSendState 2 = Inr \<lparr>minedTxs = {||}, nonceTooLowCount = 0, safeAbortNonceTooLowCount = 2\<rparr>
   \<and> ShouldAbortImmediately (apply_ops ''nonce too low''
        [OpProcessSendError (Some (GoError False ''nonce too low'')),
         OpProcessSendError (Some (GoError False ''rpc: nonce too low''))]
        \<lparr>minedTxs = {||}, nonceTooLowCount = 0, safeAbortNonceTooLowCount = 2\<rparr>)
   \<and> \<not> ShouldAbortImmediately (apply_ops ''nonce too low''
        [OpProcessSendError (Some (GoError False ''nonce too low'')),
         OpTxMined 7,
         OpProcessSendError (Some (GoError False ''rpc: nonce too low''))]
        \<lparr>minedTxs = {||}, nonceTooLowCount = 0, safeAbortNonceTooLowCount = 2\<rparr>)"
proof -
  have h: "NewSendState 2 =
      Inr \<lparr>minedTxs = {||}, nonceTooLowCount = 0, safeAbortNonceTooLowCount = 2\<rparr>"
    by (simp add: NewSendState_def)
  show ?thesis
    using h ShouldAbortImmediately_reachable [OF h, of "''nonce too low''"
        "[OpProcessSendError (Some (GoError False ''nonce too low'')),
         OpProcessSendError (Some (GoError False ''rpc: nonce too low''))]"]
      ShouldAbortImmediately_reachable [OF h, of "''nonce too low''"
        "[OpProcessSendError (Some (GoError False ''nonce too low'')),
         OpTxMined 7,
         OpProcessSendError (Some (GoError False ''rpc: nonce too low''))]"]
    by (simp add: apply_ops_def ProcessSendError_def TxMined_def)
qed

text \<open>
  Claim C3. \<open>TxNotMined h\<close> removes \<open>h\<close> from \<open>minedTxs\<close>. It sets \<open>nonceTooLowCount\<close>
  to zero exactly when \<open>h\<close> was in the set before the call and the set is empty after
  the removal; when \<open>h\<close> was absent or other hashes remain, the counter keeps its value.
  The threshold is never touched.
\<close>

theorem TxNotMined_effect:
  "minedTxs (TxNotMined h s) = minedTxs s |-| {|h|}
   \<and> nonceTooLowCount (TxNotMined h s) =
       (if h |\<in>| minedTxs s \<and> minedTxs s |-| {|h|} = {||} then 0 else nonceTooLowCount s)
   \<and> safeAbortNonceTooLowCount (TxNotMined h s) = safeAbortNonceTooLowCount s"
  by (simp add: TxNotMined_def Let_def)

theorem TxNotMined_effect_witness:
  "TxNotMined 7 \<lparr>minedTxs = {|7|}, nonceTooLowCount = 2, safeAbortNonceTooLowCount = 3\<rparr>
     = \<lparr>minedTxs = {||}, nonceTooLowCount = 0, safeAbortNonceTooLowCount = 3\<rparr>
   \<and> TxNotMined 7 \<lparr>minedTxs = {|7, 8|}, nonceTooLowCount = 2, safeAbortNonceTooLowCount = 3\<rparr>
     = \<lparr>minedTxs = {|8|}, nonceTooLowCount = 2, safeAbortNonceTooLowCount = 3\<rparr>
   \<and> TxNotMined 7 \<lparr>minedTxs = {||}, nonceTooLowCount = 2, safeAbortNonceTooLowCount = 3\<rparr>
     = \<lparr>minedTxs = {||}, nonceTooLowCount = 2, safeAbortNonceTooLowCount = 3\<rparr>"
  using TxNotMined_effect [of 7 "\<lparr>minedTxs = {|7|}, nonceTooLowCount = 2, safeAbortNonceTooLowCount = 3\<rparr>"]
    TxNotMined_effect [of 7 "\<lparr>minedTxs = {|7, 8|}, nonceTooLowCount = 2, safeAbortNonceTooLowCount = 3\<rparr>"]
    TxNotMined_effect [of 7 "\<lparr>minedTxs = {||}, nonceTooLowCount = 2, safeAbortNonceTooLowCount = 3\<rparr>"]
  by (simp add: TxNotMined_def Let_def)

text \<open>
  Claim C5. \<open>ProcessSendError\<close> adds one to \<open>nonceTooLowCount\<close> (the \<open>++\<close> of a
  \<open>uint64\<close>) exactly when the error is not nil and its message contains the message of
  \<open>ErrNonceTooLow\<close> as a contiguous substring; with a nil error or without the substring
  the state is returned as it was. \<open>minedTxs\<close> and the threshold are the same in every
  case.
\<close>

theorem ProcessSendError_effect:
  "ProcessSendError n err s =
     (if \<exists>e. err = Some e \<and> sublist n (err_msg e)
      then s\<lparr>nonceTooLowCount := nonceTooLowCount s + 1\<rparr> else s)
   \<and> (nonceTooLowCount (ProcessSendError n err s) = nonceTooLowCount s + 1
        \<longleftrightarrow> (\<exists>e. err = Some e \<and> sublist n (err_msg e)))
   \<and> minedTxs (ProcessSendError n err s) = minedTxs s
   \<and> safeAbortNonceTooLowCount (ProcessSendError n err s) = safeAbortNonceTooLowCount s"
  by (cases err) (auto simp: ProcessSendError_def Contains_sublist)

theorem ProcessSendError_effect_witness:
  "ProcessSendError ''nonce too low'' (Some (GoError False ''rpc: nonce too low (8)''))
       \<lparr>minedTxs = {|7|}, nonceTooLowCount = 2, safeAbortNonceTooLowCount = 3\<rparr>
     = \<lparr>minedTxs = {|7|}, nonceTooLowCount = 3, safeAbortNonceTooLowCount = 3\<rparr>
   \<and> ProcessSendError ''nonce too low'' (Some (GoError False ''out of gas''))
       \<lparr>minedTxs = {|7|}, nonceTooLowCount = 2, safeAbortNonceTooLowCount = 3\<rparr>
     = \<lparr>minedTxs = {|7|}, nonceTooLowCount = 2, safeAbortNonceTooLowCount = 3\<rparr>
   \<and> ProcessSendError ''nonce too low'' None
       \<lparr>minedTxs = {|7|}, nonceTooLowCount = 2, safeAbortNonceTooLowCount = 3\<rparr>
     = \<lparr>minedTxs = {|7|}, nonceTooLowCount = 2, safeAbortNonceTooLowCount = 3\<rparr>"
  using ProcessSendError_effect [of "''nonce too low''" "Some (GoError False ''rpc: nonce too low (8)'')"
       "\<lparr>minedTxs = {|7|}, nonceTooLowCount = 2, safeAbortNonceTooLowCount = 3\<rparr>"]
    ProcessSendError_effect [of "''nonce too low''" "Some (GoError False ''out of gas'')"
       "\<lparr>minedTxs = {|7|}, nonceTooLowCount = 2, safeAbortNonceTooLowCount = 3\<rparr>"]
    ProcessSendError_effect [of "''nonce too low''" None
       "\<lparr>minedTxs = {|7|}, nonceTooLowCount = 2, safeAbortNonceTooLowCount = 3\<rparr>"]
  by (simp add: Contains_sublist [symmetric])

text \<open>
  Claim C10. \<open>TxMined h\<close> is idempotent, and one call changes nothing but \<open>minedTxs\<close>,
  into which it inserts \<open>h\<close>: the counter and the threshold keep their values, whatever
  they are.
\<close>

theorem TxMined_idempotent:
  "TxMined h (TxMined h s) = TxMined h s
   \<and> TxMined h s = s\<lparr>minedTxs := finsert h (minedTxs s)\<rparr>
   \<and> nonceTooLowCount (TxMined h s) = nonceTooLowCount s
   \<and> safeAbortNonceTooLowCount (TxMined h s) = safeAbortNonceTooLowCount s"
  by (simp add: TxMined_def)

section \<open>The gas fee cap\<close>

text \<open>
  Claim C9. On unbounded integers \<open>CalcGasFeeCap baseFee gasTipCap\<close> is exactly
  \<open>gasTipCap + 2 * baseFee\<close>.
\<close>

theorem CalcGasFeeCap_exact: "CalcGasFeeCap baseFee gasTipCap = gasTipCap + 2 * baseFee"
  by (simp add: CalcGasFeeCap_def)

section \<open>The confirmation test of waitMined\<close>

lemma Uint64_exact: "0 \<le> b \<Longrightarrow> b < 2 ^ 64 \<Longrightarrow> uint (Uint64 b) = b"
  by (simp add: Uint64_def uint_word_of_int_eq take_bit_int_eq_self)

lemma uint64_add_no_wrap:
  fixes a b :: uint64
  shows "uint a + uint b < 2 ^ 64 \<Longrightarrow> uint (a + b) = uint a + uint b"
  by (simp add: uint_word_ariths take_bit_int_eq_self)

lemma waitMined_poll_receipt:
  assumes "receipt_reply rep = (Some rcpt, e)" and "tip_reply rep = (tipHeight, None)"
  shows "waitMined_poll nc h rep s =
           (if Uint64 (BlockNumber rcpt) + nc \<le> tipHeight + 1 then Confirmed rcpt
            else NotYetConfirmed ((Uint64 (BlockNumber rcpt) + nc) - (tipHeight + 1)),
            map_option (TxMined h) s)"
  using assms by (simp add: waitMined_poll_def Let_def)

text \<open>
  Claim C1, as stated: with a receipt at block \<open>tx_block\<close>, a tip \<open>tip_block\<close> and
  \<open>num_confirmations \<ge> 1\<close>, the receipt is accepted exactly when
  \<open>tx_block + num_confirmations \<le> tip_block + 1\<close>. The code adds in \<open>uint64\<close>: with
  a receipt at block 5, the tip at 10 and \<open>2^64 - 1\<close> confirmations asked for, the left
  sum wraps around to 4 and the receipt is accepted, although
  \<open>5 + (2^64 - 1)\<close> is far above 11.
\<close>

theorem waitMined_accepts_counterexample:
  "(18446744073709551615 :: uint64) \<ge> 1
   \<and> fst (waitMined_poll 18446744073709551615 1
          \<lparr>receipt_reply = (Some \<lparr>TxHash = 1, BlockNumber = 5\<rparr>, None),
           tip_reply = (10, None)\<rparr> None)
       = Confirmed \<lparr>TxHash = 1, BlockNumber = 5\<rparr>
   \<and> \<not> ((5::int) + uint (18446744073709551615 :: uint64) \<le> uint (10 :: uint64) + 1)"
  by (simp add: waitMined_poll_def Uint64_def)

text \<open>
  Claim C1, amended. When a poll brings a receipt and a tip, the receipt is accepted
  exactly when the \<open>uint64\<close> sum \<open>txHeight + numConfirmations\<close> is at most the \<open>uint64\<close>
  sum \<open>tipHeight + 1\<close>. If neither sum leaves the range of \<open>uint64\<close> (the block number
  is not negative, \<open>tx_block + num_confirmations < 2^64\<close> and \<open>tip_block + 1 < 2^64\<close>),
  that is exactly when \<open>tx_block + num_confirmations \<le> tip_block + 1\<close>. A receipt that
  is not accepted yields \<open>confsRemaining = (txHeight + numConfirmations) - (tipHeight + 1)\<close>,
  which in that range is the difference of the numbers. \<open>waitMined\<close> returns the
  receipt at once when it is accepted; otherwise it goes on to its select, where it
  returns the context's error if the context is done and polls again if the ticker
  fires.
\<close>

theorem waitMined_accepts:
  assumes rr: "receipt_reply rep = (Some rcpt, e)" and tr: "tip_reply rep = (tipHeight, None)"
  shows "(fst (waitMined_poll nc (tx_Hash tx) rep s) = Confirmed rcpt
            \<longleftrightarrow> Uint64 (BlockNumber rcpt) + nc \<le> tipHeight + 1)
       \<and> (0 \<le> BlockNumber rcpt \<and> BlockNumber rcpt + uint nc < 2 ^ 64 \<and> uint tipHeight + 1 < 2 ^ 64
            \<longrightarrow> (fst (waitMined_poll nc (tx_Hash tx) rep s) = Confirmed rcpt
                   \<longleftrightarrow> BlockNumber rcpt + uint nc \<le> uint tipHeight + 1))
       \<and> (fst (waitMined_poll nc (tx_Hash tx) rep s) \<noteq> Confirmed rcpt
            \<longrightarrow> fst (waitMined_poll nc (tx_Hash tx) rep s) =
                  NotYetConfirmed ((Uint64 (BlockNumber rcpt) + nc) - (tipHeight + 1)))
       \<and> (0 \<le> BlockNumber rcpt \<and> BlockNumber rcpt + uint nc < 2 ^ 64 \<and> uint tipHeight + 1 < 2 ^ 64
            \<and> fst (waitMined_poll nc (tx_Hash tx) rep s) \<noteq> Confirmed rcpt
            \<longrightarrow> uint ((Uint64 (BlockNumber rcpt) + nc) - (tipHeight + 1)) =
                  (BlockNumber rcpt + uint nc) - (uint tipHeight + 1))
       \<and> (0 < queryInterval
            \<longrightarrow> waitMined tx queryInterval nc ((rep, sel) # obs) s =
                  Inr (if fst (waitMined_poll nc (tx_Hash tx) rep s) = Confirmed rcpt
                       then (Some (Some rcpt, None), map_option (TxMined (tx_Hash tx)) s)
                       else case sel of
                              CtxDone err \<Rightarrow>
                                (Some (None, Some err), map_option (TxMined (tx_Hash tx)) s)
                            | QueryTick \<Rightarrow>
                                waitMined_loop nc (tx_Hash tx) obs
                                  (map_option (TxMined (tx_Hash tx)) s)))"
proof -
  let ?tx = "Uint64 (BlockNumber rcpt)"
  let ?h = "tx_Hash tx"
  note poll = waitMined_poll_receipt [OF rr tr, of nc ?h s]
  have sums: "uint (?tx + nc) = BlockNumber rcpt + uint nc \<and> uint (tipHeight + 1) = uint tipHeight + 1"
    if "0 \<le> BlockNumber rcpt" "BlockNumber rcpt + uint nc < 2 ^ 64" "uint tipHeight + 1 < 2 ^ 64"
  proof -
    have "BlockNumber rcpt < 2 ^ 64" using that(2) uint_ge_0 [of nc] by linarith
    then have tx: "uint ?tx = BlockNumber rcpt" using that(1) by (rule Uint64_exact [rotated])
    have l: "uint (?tx + nc) = BlockNumber rcpt + uint nc"
      using uint64_add_no_wrap [of ?tx nc] that(2) tx by simp
    have r: "uint (tipHeight + 1) = uint tipHeight + 1"
      using uint64_add_no_wrap [of tipHeight 1] that(3) by simp
    from l r show ?thesis ..
  qed
  have a: "fst (waitMined_poll nc ?h rep s) = Confirmed rcpt \<longleftrightarrow> ?tx + nc \<le> tipHeight + 1"
    by (simp add: poll)
  have b: "?tx + nc \<le> tipHeight + 1 \<longleftrightarrow> BlockNumber rcpt + uint nc \<le> uint tipHeight + 1"
    if "0 \<le> BlockNumber rcpt" "BlockNumber rcpt + uint nc < 2 ^ 64" "uint tipHeight + 1 < 2 ^ 64"
    using sums [OF that] by (simp add: word_le_def)
  have c: "fst (waitMined_poll nc ?h rep s) \<noteq> Confirmed rcpt
            \<longrightarrow> fst (waitMined_poll nc ?h rep s) = NotYetConfirmed ((?tx + nc) - (tipHeight + 1))"
    by (simp add: poll)
  have d: "uint ((?tx + nc) - (tipHeight + 1)) = (BlockNumber rcpt + uint nc) - (uint tipHeight + 1)"
    if "0 \<le> BlockNumber rcpt" "BlockNumber rcpt + uint nc < 2 ^ 64" "uint tipHeight + 1 < 2 ^ 64"
       "fst (waitMined_poll nc ?h rep s) \<noteq> Confirmed rcpt"
  proof -
    from that(4) a have "tipHeight + 1 \<le> ?tx + nc" by simp
    then have "uint (tipHeight + 1) \<le> uint (?tx + nc)" by (simp add: word_le_def)
    then have "uint ((?tx + nc) - (tipHeight + 1)) = uint (?tx + nc) - uint (tipHeight + 1)"
      by (rule uint_sub_lem [THEN iffD1])
    then show ?thesis using sums [OF that(1,2,3)] by simp
  qed
  have e: "waitMined tx queryInterval nc ((rep, sel) # obs) s =
             Inr (if fst (waitMined_poll nc ?h rep s) = Confirmed rcpt
                  then (Some (Some rcpt, None), map_option (TxMined ?h) s)
                  else case sel of
                         CtxDone err \<Rightarrow> (Some (None, Some err), map_option (TxMined ?h) s)
                       | QueryTick \<Rightarrow> waitMined_loop nc ?h obs (map_option (TxMined ?h) s))"
    if "0 < queryInterval"
    using that by (simp add: waitMined_def poll)
  from a b c d e show ?thesis by blast
qed

theorem waitMined_accepts_witness:
  "waitMined \<lparr>tx_Hash = 7, tx_Nonce = 0, tx_GasTipCap = 1, tx_GasFeeCap = 3\<rparr> 1 6
     [(\<lparr>receipt_reply = (Some \<lparr>TxHash = 7, BlockNumber = 100\<rparr>, None),
        tip_reply = (104, None)\<rparr>, QueryTick),
      (\<lparr>receipt_reply = (Some \<lparr>TxHash = 7, BlockNumber = 100\<rparr>, None),
        tip_reply = (105, None)\<rparr>, QueryTick)]
     None
   = Inr (Some (Some \<lparr>TxHash = 7, BlockNumber = 100\<rparr>, None), None)
   \<and> fst (waitMined_poll 6 7
          \<lparr>receipt_reply = (Some \<lparr>TxHash = 7, BlockNumber = 100\<rparr>, None),
           tip_reply = (104, None)\<rparr> None)
       = NotYetConfirmed 1"
proof -
  let ?tx = "\<lparr>tx_Hash = 7, tx_Nonce = 0, tx_GasTipCap = 1, tx_GasFeeCap = 3\<rparr>"
  let ?r = "\<lparr>TxHash = 7, BlockNumber = 100\<rparr>"
  let ?early = "\<lparr>receipt_reply = (Some ?r, None), tip_reply = (104, None)\<rparr>"
  let ?late = "\<lparr>receipt_reply = (Some ?r, None), tip_reply = (105, None)\<rparr>"
  have r1: "receipt_reply ?early = (Some ?r, None)" and t1: "tip_reply ?early = (104, None)"
    and r2: "receipt_reply ?late = (Some ?r, None)" and t2: "tip_reply ?late = (105, None)"
    by simp_all
  from waitMined_accepts [OF r1 t1, where nc = 6 and tx = ?tx and s = None
        and queryInterval = 1 and sel = QueryTick and obs = "[(?late, QueryTick)]"]
    waitMined_accepts [OF r2 t2, where nc = 6 and tx = ?tx and s = None
        and queryInterval = 1 and sel = QueryTick and obs = "[]"]
  show ?thesis by (simp add: waitMined_def waitMined_poll_def Uint64_def)
qed

section \<open>What a poll reports to the send state\<close>

text \<open>
  Claim C8. A poll of \<open>waitMined\<close> that has a send state classifies the backend's
  answer in this order. A receipt is present: \<open>TxMined\<close> is applied, whatever the error
  component and whatever the tip fetch returns; when the tip fetch fails the poll ends
  there, with \<open>TxMined\<close> applied. No receipt but an error: the send state is as before.
  Neither receipt nor error: \<open>TxNotMined\<close> is applied. Without a send state there is
  none afterwards.
\<close>

theorem waitMined_poll_reports:
  "(\<forall>rcpt e. receipt_reply rep = (Some rcpt, e) \<longrightarrow>
       snd (waitMined_poll nc h rep (Some s)) = Some (TxMined h s)
       \<and> (\<forall>tip err. tip_reply rep = (tip, Some err) \<longrightarrow>
            waitMined_poll nc h rep (Some s) = (TipUnavailable err, Some (TxMined h s))))
   \<and> (\<forall>err. receipt_reply rep = (None, Some err) \<longrightarrow>
         waitMined_poll nc h rep (Some s) = (ReceiptUnavailable err, Some s))
   \<and> (receipt_reply rep = (None, None) \<longrightarrow>
         waitMined_poll nc h rep (Some s) = (NotYetMined, Some (TxNotMined h s)))
   \<and> snd (waitMined_poll nc h rep None) = None"
  by (simp add: waitMined_poll_def Let_def split: prod.splits option.splits)

theorem waitMined_poll_reports_witness:
  "waitMined_poll 6 7
      \<lparr>receipt_reply = (Some \<lparr>TxHash = 7, BlockNumber = 100\<rparr>, None),
       tip_reply = (0, Some (GoError False ''connection reset''))\<rparr>
      (Some \<lparr>minedTxs = {||}, nonceTooLowCount = 2, safeAbortNonceTooLowCount = 3\<rparr>)
     = (TipUnavailable (GoError False ''connection reset''),
        Some \<lparr>minedTxs = {|7|}, nonceTooLowCount = 2, safeAbortNonceTooLowCount = 3\<rparr>)
   \<and> waitMined_poll 6 7
      \<lparr>receipt_reply = (None, Some (GoError False ''not found'')), tip_reply = (105, None)\<rparr>
      (Some \<lparr>minedTxs = {|7|}, nonceTooLowCount = 2, safeAbortNonceTooLowCount = 3\<rparr>)
     = (ReceiptUnavailable (GoError False ''not found''),
        Some \<lparr>minedTxs = {|7|}, nonceTooLowCount = 2, safeAbortNonceTooLowCount = 3\<rparr>)
   \<and> waitMined_poll 6 7
      \<lparr>receipt_reply = (None, None), tip_reply = (105, None)\<rparr>
      (Some \<lparr>minedTxs = {|7|}, nonceTooLowCount = 2, safeAbortNonceTooLowCount = 3\<rparr>)
     = (NotYetMined,
        Some \<lparr>minedTxs = {||}, nonceTooLowCount = 0, safeAbortNonceTooLowCount = 3\<rparr>)"
  using waitMined_poll_reports [of
      "\<lparr>receipt_reply = (Some \<lparr>TxHash = 7, BlockNumber = 100\<rparr>, None),
       tip_reply = (0, Some (GoError False ''connection reset''))\<rparr>" 6 7
      "\<lparr>minedTxs = {||}, nonceTooLowCount = 2, safeAbortNonceTooLowCount = 3\<rparr>"]
    waitMined_poll_reports [of
      "\<lparr>receipt_reply = (None, Some (GoError False ''not found'')), tip_reply = (105, None)\<rparr>" 6 7
      "\<lparr>minedTxs = {|7|}, nonceTooLowCount = 2, safeAbortNonceTooLowCount = 3\<rparr>"]
    waitMined_poll_reports [of
      "\<lparr>receipt_reply = (None, None), tip_reply = (105, None)\<rparr>" 6 7
      "\<lparr>minedTxs = {|7|}, nonceTooLowCount = 2, safeAbortNonceTooLowCount = 3\<rparr>"]
  by (simp add: TxMined_def TxNotMined_def Let_def)

section \<open>Construction\<close>

text \<open>
  Claim C4, as stated: constructing the transaction manager with
  \<open>safe_abort_nonce_too_low_count = 0\<close> fails at construction time. \<open>NewSimpleTxManager\<close>
  tests \<open>NumConfirmations\<close> only: with one confirmation and a zero threshold it returns
  a manager.
\<close>

theorem construction_counterexample:
  "NewSimpleTxManager
     \<lparr>ResubmissionTimeout = 1, ReceiptQueryInterval = 1, NumConfirmations = 1,
      SafeAbortNonceTooLowCount = 0\<rparr> ()
   = Inr \<lparr>cfg = \<lparr>ResubmissionTimeout = 1, ReceiptQueryInterval = 1, NumConfirmations = 1,
                 SafeAbortNonceTooLowCount = 0\<rparr>, backend = ()\<rparr>"
  by (simp add: NewSimpleTxManager_def)

text \<open>
  Claim C4, amended. \<open>NewSimpleTxManager\<close> panics exactly when \<open>NumConfirmations\<close> is
  zero and otherwise returns the manager, whatever the threshold. \<open>NewSendState\<close>
  panics exactly when its threshold is zero; \<open>Send\<close> constructs the send state first, so
  on a manager whose threshold is zero every \<open>Send\<close> panics, whatever happens around
  it. With both counts positive both constructions succeed.
\<close>

theorem construction_panics:
  "(NewSimpleTxManager c b =
      (if NumConfirmations c = 0 then Inl (Panic ''txmgr: NumConfirmations must be > 0'')
       else Inr \<lparr>cfg = c, backend = b\<rparr>))
   \<and> (NewSendState t =
      (if t = 0 then Inl (Panic ''txmgr: safeAbortNonceTooLowCount must be > 0'')
       else Inr \<lparr>minedTxs = {||}, nonceTooLowCount = 0, safeAbortNonceTooLowCount = t\<rparr>))
   \<and> (SafeAbortNonceTooLowCount (cfg m) = 0 \<longrightarrow>
        Send n m evs = Inl (Panic ''txmgr: safeAbortNonceTooLowCount must be > 0''))
   \<and> (NumConfirmations c \<noteq> 0 \<and> SafeAbortNonceTooLowCount c \<noteq> 0 \<longrightarrow>
        \<not> isl (NewSimpleTxManager c b) \<and> \<not> isl (NewSendState (SafeAbortNonceTooLowCount c)))"
  by (simp add: NewSimpleTxManager_def NewSendState_def Send_def)

theorem construction_panics_witness:
  "Send ''nonce too low''
     \<lparr>cfg = \<lparr>ResubmissionTimeout = 1, ReceiptQueryInterval = 1, NumConfirmations = 1,
             SafeAbortNonceTooLowCount = 0\<rparr>, backend = ()\<rparr>
     [Attempt 0 (GasPriceReturns (Inl (GoError False ''oracle down''))), CtxDoneSelected]
   = Inl (Panic ''txmgr: safeAbortNonceTooLowCount must be > 0'')
   \<and> NewSimpleTxManager
       \<lparr>ResubmissionTimeout = 1, ReceiptQueryInterval = 1, NumConfirmations = 6,
        SafeAbortNonceTooLowCount = 3\<rparr> ()
     = Inr \<lparr>cfg = \<lparr>ResubmissionTimeout = 1, ReceiptQueryInterval = 1, NumConfirmations = 6,
                   SafeAbortNonceTooLowCount = 3\<rparr>, backend = ()\<rparr>
   \<and> NewSendState 3 = Inr \<lparr>minedTxs = {||}, nonceTooLowCount = 0, safeAbortNonceTooLowCount = 3\<rparr>
   \<and> NewSimpleTxManager
       \<lparr>ResubmissionTimeout = 1, ReceiptQueryInterval = 1, NumConfirmations = 0,
        SafeAbortNonceTooLowCount = 3\<rparr> ()
     = Inl (Panic ''txmgr: NumConfirmations must be > 0'')"
  using construction_panics [of
      "\<lparr>ResubmissionTimeout = 1, ReceiptQueryInterval = 1, NumConfirmations = 6,
        SafeAbortNonceTooLowCount = 3\<rparr>" "()" 3
      "\<lparr>cfg = \<lparr>ResubmissionTimeout = 1, ReceiptQueryInterval = 1, NumConfirmations = 1,
             SafeAbortNonceTooLowCount = 0\<rparr>, backend = ()\<rparr>"
      "''nonce too low''"
      "[Attempt 0 (GasPriceReturns (Inl (GoError False ''oracle down''))), CtxDoneSelected]"]
    construction_panics [of
      "\<lparr>ResubmissionTimeout = 1, ReceiptQueryInterval = 1, NumConfirmations = 0,
        SafeAbortNonceTooLowCount = 3\<rparr>" "()" 3
      "\<lparr>cfg = \<lparr>ResubmissionTimeout = 1, ReceiptQueryInterval = 1, NumConfirmations = 1,
             SafeAbortNonceTooLowCount = 0\<rparr>, backend = ()\<rparr>"
      "''nonce too low''" "[]"]
  by simp

section \<open>Send\<close>

lemma attempt_step_attempts:
  "attempt_step n c ev pc d = Some (pc', d') \<Longrightarrow> attempts d' = attempts d"
  by (auto simp: attempt_step_def cancel_def Let_def
      split: attempt_pc.splits attempt_event.splits sum.splits option.splits if_splits
        prod.splits poll_outcome.splits)

lemma attempt_step_returned:
  "attempt_step n c ev pc d = Some (pc', d') \<Longrightarrow> returned d' = returned d"
  by (auto simp: attempt_step_def cancel_def Let_def
      split: attempt_pc.splits attempt_event.splits sum.splits option.splits if_splits
        prod.splits poll_outcome.splits)

lemma attempt_step_ctxc_err:
  "attempt_step n c ev pc d = Some (pc', d') \<Longrightarrow>
     ctxc_err d' = ctxc_err d
     \<or> (ctxc_err d = None \<and> ctxc_err d' = Some context_Canceled
          \<and> cancels_internally (Attempt i ev))"
  by (auto simp: attempt_step_def cancel_def Let_def
      split: attempt_pc.splits attempt_event.splits sum.splits option.splits if_splits
        prod.splits poll_outcome.splits)

lemma waitMined_poll_Confirmed:
  "waitMined_poll nc h rep s = (Confirmed r, s') \<Longrightarrow> confirms nc r (Attempt i (Polled rep))"
  by (auto simp: waitMined_poll_def Let_def split: prod.splits option.splits if_splits)

lemma attempt_step_receiptChan:
  "attempt_step n c ev pc d = Some (pc', d') \<Longrightarrow>
     receiptChan d' = receiptChan d \<or> (\<exists>r. pc = AtDeliver r \<and> receiptChan d' = Some r)"
  by (auto simp: attempt_step_def cancel_def Let_def
      split: attempt_pc.splits attempt_event.splits sum.splits option.splits if_splits
        prod.splits poll_outcome.splits)

lemma attempt_step_AtDeliver:
  "attempt_step n c ev pc d = Some (AtDeliver r, d') \<Longrightarrow>
     confirms (NumConfirmations c) r (Attempt i ev)"
  by (auto simp: attempt_step_def cancel_def Let_def
      dest: waitMined_poll_Confirmed [where i = i]
      split: attempt_pc.splits attempt_event.splits sum.splits option.splits if_splits
        prod.splits poll_outcome.splits)

lemma ctx_origin_mono: "ctx_origin E e \<Longrightarrow> E \<subseteq> E' \<Longrightarrow> ctx_origin E' e"
  unfolding ctx_origin_def by blast

lemma confirmed_mono:
  "\<exists>ev\<in>E. confirms nc r ev \<Longrightarrow> E \<subseteq> E' \<Longrightarrow> \<exists>ev\<in>E'. confirms nc r ev"
  by blast

lemma send_inv_Tick:
  assumes "send_inv nc E d" and "step n c Tick d = Some d'"
  shows "send_inv nc (insert Tick E) d'"
proof -
  from assms(2) have "d' = d \<or> d' = d\<lparr>attempts := attempts d @ [AtUpdateGasPrice]\<rparr>"
    by (auto split: if_splits)
  with assms(1) show ?thesis
    unfolding send_inv_def ctx_origin_def
    by (auto split: option.splits prod.splits)
qed

lemma send_inv_CtxDoneSelected:
  assumes "send_inv nc E d" and "step n c CtxDoneSelected d = Some d'"
  shows "send_inv nc (insert CtxDoneSelected E) d'"
proof -
  from assms(2) have r: "returned d = None"
    by (cases "returned d") simp_all
  with assms(2) obtain e where e: "ctxc_err d = Some e"
    and d': "d' = d\<lparr>returned := Some (None, Some e)\<rparr>"
    by (cases "ctxc_err d") (simp_all add: cancel_def)
  from assms(1) e r have "ctx_origin E e" unfolding send_inv_def by auto
  then have o: "ctx_origin (insert CtxDoneSelected E) e" by (rule ctx_origin_mono) blast
  from assms(1) have "\<forall>r. receiptChan d = Some r \<or> AtDeliver r \<in> set (attempts d)
          \<longrightarrow> (\<exists>ev\<in>E. confirms nc r ev)"
    unfolding send_inv_def by blast
  with o e show ?thesis unfolding send_inv_def d' by auto
qed

lemma send_inv_ReceiptSelected:
  assumes "send_inv nc E d" and "step n c ReceiptSelected d = Some d'"
  shows "send_inv nc (insert ReceiptSelected E) d'"
proof -
  from assms(2) have r: "returned d = None"
    by (cases "returned d") simp_all
  with assms(2) obtain rc where rc: "receiptChan d = Some rc"
    and d': "d' = cancel (d\<lparr>receiptChan := None, returned := Some (Some rc, None)\<rparr>)"
    by (cases "receiptChan d") simp_all
  from assms(1) have old: "\<forall>r. receiptChan d = Some r \<or> AtDeliver r \<in> set (attempts d)
          \<longrightarrow> (\<exists>ev\<in>E. confirms nc r ev)"
    and ctx: "\<forall>e. ctxc_err d = Some e \<longrightarrow> ctx_origin E e \<or> (e = context_Canceled \<and> returned d \<noteq> None)"
    unfolding send_inv_def by blast+
  from ctx r have ctx': "\<forall>e. ctxc_err d = Some e \<longrightarrow> ctx_origin (insert ReceiptSelected E) e"
    by (auto intro: ctx_origin_mono)
  from old rc have "\<exists>ev\<in>insert ReceiptSelected E. confirms nc rc ev" by blast
  with old ctx' show ?thesis
    unfolding send_inv_def d' cancel_def by auto
qed

lemma send_inv_ParentDone:
  assumes "send_inv nc E d" and "step n c (ParentDone e) d = Some d'"
  shows "send_inv nc (insert (ParentDone e) E) d'"
proof -
  let ?E = "insert (ParentDone e) E"
  from assms(2) have d': "d' = (if ctxc_err d = None then d\<lparr>ctxc_err := Some e\<rparr> else d)"
    by simp
  have new: "ctx_origin ?E e" unfolding ctx_origin_def by simp
  from assms(1) have old: "\<forall>r. receiptChan d = Some r \<or> AtDeliver r \<in> set (attempts d)
          \<longrightarrow> (\<exists>ev\<in>?E. confirms nc r ev)"
    and ctx: "\<forall>x. ctxc_err d = Some x \<longrightarrow> ctx_origin ?E x \<or> (x = context_Canceled \<and> returned d \<noteq> None)"
    and ret: "case returned d of
         None \<Rightarrow> True
       | Some (Some r, None) \<Rightarrow> (\<exists>ev\<in>?E. confirms nc r ev)
       | Some (None, Some x) \<Rightarrow> ctxc_err d = Some x \<and> ctx_origin ?E x
       | Some _ \<Rightarrow> False"
    unfolding send_inv_def
    by (auto split: option.splits prod.splits intro: ctx_origin_mono)
  show ?thesis
  proof (cases "ctxc_err d = None")
    case True
    with d' have d'': "d' = d\<lparr>ctxc_err := Some e\<rparr>" by simp
    from old new ret True show ?thesis
      unfolding send_inv_def d'' by (auto split: option.splits prod.splits)
  next
    case False
    with d' have same: "d' = d" by simp
    from old ctx ret show ?thesis unfolding send_inv_def same by simp
  qed
qed

lemma send_inv_attempt:
  assumes inv: "send_inv (NumConfirmations c) E d"
    and st: "step n c (Attempt i a) d = Some d'"
  shows "send_inv (NumConfirmations c) (insert (Attempt i a) E) d'"
proof -
  from st obtain pc d1 where i: "i < length (attempts d)"
    and as: "attempt_step n c a (attempts d ! i) d = Some (pc, d1)"
    and d': "d' = d1\<lparr>attempts := (attempts d1)[i := pc]\<rparr>"
    by (auto split: if_splits option.splits)
  let ?E = "insert (Attempt i a) E"
  note att = attempt_step_attempts [OF as]
  note ret = attempt_step_returned [OF as]
  have old: "\<exists>ev\<in>?E. confirms (NumConfirmations c) r ev"
    if "receiptChan d = Some r \<or> AtDeliver r \<in> set (attempts d)" for r
    using inv that unfolding send_inv_def by blast
  have chan: "\<exists>ev\<in>?E. confirms (NumConfirmations c) r ev" if "receiptChan d' = Some r" for r
  proof -
    from that d' have "receiptChan d1 = Some r" by simp
    with attempt_step_receiptChan [OF as]
    have "receiptChan d = Some r \<or> attempts d ! i = AtDeliver r" by auto
    with i have "receiptChan d = Some r \<or> AtDeliver r \<in> set (attempts d)"
      by (metis nth_mem)
    then show ?thesis by (rule old)
  qed
  have deliv: "\<exists>ev\<in>?E. confirms (NumConfirmations c) r ev"
    if "AtDeliver r \<in> set (attempts d')" for r
  proof -
    from that d' att have "AtDeliver r \<in> set ((attempts d)[i := pc])" by simp
    then have "AtDeliver r = pc \<or> AtDeliver r \<in> set (attempts d)"
      using set_update_subset_insert [of "attempts d" i pc] by auto
    then show ?thesis
    proof
      assume "AtDeliver r = pc"
      with as have "confirms (NumConfirmations c) r (Attempt i a)"
        by (auto intro: attempt_step_AtDeliver)
      then show ?thesis by blast
    next
      assume "AtDeliver r \<in> set (attempts d)"
      then show ?thesis using old by blast
    qed
  qed
  have sub: "E \<subseteq> ?E" by blast
  have ctx: "ctx_origin ?E e \<or> (e = context_Canceled \<and> returned d' \<noteq> None)"
    if "ctxc_err d' = Some e" for e
  proof -
    from that d' have "ctxc_err d1 = Some e" by simp
    with attempt_step_ctxc_err [OF as, of i]
    have "ctxc_err d = Some e \<or> (e = context_Canceled \<and> cancels_internally (Attempt i a))"
      by auto
    then show ?thesis
    proof
      assume "ctxc_err d = Some e"
      with inv have "ctx_origin E e \<or> (e = context_Canceled \<and> returned d \<noteq> None)"
        unfolding send_inv_def by blast
      with ret d' show ?thesis by (auto intro: ctx_origin_mono [OF _ sub])
    next
      assume "e = context_Canceled \<and> cancels_internally (Attempt i a)"
      then show ?thesis unfolding ctx_origin_def by blast
    qed
  qed
  have retd: "case returned d' of
         None \<Rightarrow> True
       | Some (Some r, None) \<Rightarrow> (\<exists>ev\<in>?E. confirms (NumConfirmations c) r ev)
       | Some (None, Some e) \<Rightarrow> ctxc_err d' = Some e \<and> ctx_origin ?E e
       | Some _ \<Rightarrow> False"
  proof -
    have r: "returned d' = returned d" using d' ret by simp
    have "ctxc_err d' = Some e \<and> ctx_origin ?E e" if "returned d = Some (None, Some e)" for e
    proof -
      from inv that have "ctxc_err d = Some e \<and> ctx_origin E e" unfolding send_inv_def by simp
      with attempt_step_ctxc_err [OF as, of i] d' show ?thesis
        by (auto intro: ctx_origin_mono [OF _ sub])
    qed
    moreover have "\<exists>ev\<in>?E. confirms (NumConfirmations c) r ev"
      if "returned d = Some (Some r, None)" for r
      using inv that unfolding send_inv_def by auto
    moreover have "case returned d of None \<Rightarrow> True | Some (Some r, None) \<Rightarrow> True
        | Some (None, Some e) \<Rightarrow> True | Some _ \<Rightarrow> False"
      using inv unfolding send_inv_def by (auto split: option.splits prod.splits)
    ultimately show ?thesis
      unfolding r by (auto split: option.splits prod.splits)
  qed
  from chan deliv ctx retd show ?thesis
    unfolding send_inv_def by blast
qed

lemma send_inv_step:
  assumes "send_inv (NumConfirmations c) E d" and "step n c ev d = Some d'"
  shows "send_inv (NumConfirmations c) (insert ev E) d'"
  using assms
  by (cases ev)
    (blast intro: send_inv_Tick send_inv_CtxDoneSelected send_inv_ReceiptSelected
      send_inv_ParentDone send_inv_attempt)+

lemma send_inv_run:
  "send_inv (NumConfirmations c) E d \<Longrightarrow> run n c evs d = Some d'
     \<Longrightarrow> send_inv (NumConfirmations c) (E \<union> set evs) d'"
proof (induction evs arbitrary: E d)
  case Nil
  then show ?case by simp
next
  case (Cons ev evs)
  from Cons.prems(2) obtain d1 where s: "step n c ev d = Some d1" and r: "run n c evs d1 = Some d'"
    by (auto split: option.splits)
  have "send_inv (NumConfirmations c) (insert ev E \<union> set evs) d'"
    by (rule Cons.IH [OF send_inv_step [OF Cons.prems(1) s] r])
  then show ?case by simp
qed

lemma send_inv_start:
  "send_inv nc {} \<lparr>sendState = s, ctxc_err = None, receiptChan = None,
                  attempts = [AtUpdateGasPrice], returned = None\<rparr>"
  by (simp add: send_inv_def)

lemma Send_result_returned: "Send_result d = Some v \<Longrightarrow> returned d = Some v"
  by (simp add: Send_result_def split: if_splits)

text \<open>
  Claim C6. Whenever \<open>Send\<close> has returned, it has returned one of two things. Either a
  receipt and no error, and then some waiter's poll has seen that receipt with a tip at
  which the confirmation test holds. Or no receipt and an error, which is the error of
  the derived context \<open>ctxc\<close>: the \<open>Err()\<close> of the caller's context, or
  \<open>context.Canceled\<close> set by a \<open>cancel()\<close> on the path of a failed \<open>updateGasPrice\<close> or
  behind the abort test. It never returns both, and never neither.
\<close>

theorem Send_returns_receipt_or_cancellation:
  assumes "Send n m evs = Inr (Some d)" and "returned d = Some (rcpt, err)"
  shows "(\<exists>r. rcpt = Some r \<and> err = None
            \<and> (\<exists>ev\<in>set evs. confirms (NumConfirmations (cfg m)) r ev))
       \<or> (rcpt = None
            \<and> (\<exists>e. err = Some e \<and> ctxc_err d = Some e
                 \<and> (ParentDone e \<in> set evs
                     \<or> (e = context_Canceled \<and> (\<exists>ev\<in>set evs. cancels_internally ev)))))"
proof -
  from assms(1) obtain s where
    "run n (cfg m) evs \<lparr>sendState = s, ctxc_err = None, receiptChan = None,
                  attempts = [AtUpdateGasPrice], returned = None\<rparr> = Some d"
    by (auto simp: Send_def split: sum.splits if_splits)
  from send_inv_run [OF send_inv_start this]
  have "send_inv (NumConfirmations (cfg m)) (set evs) d" by simp
  with assms(2) show ?thesis
    unfolding send_inv_def ctx_origin_def
    by (cases rcpt; cases err) auto
qed

theorem Send_returns_receipt_or_cancellation_witness:
  "(\<exists>d. Send ''nonce too low''
          \<lparr>cfg = \<lparr>ResubmissionTimeout = 1, ReceiptQueryInterval = 1, NumConfirmations = 6,
                  SafeAbortNonceTooLowCount = 3\<rparr>, backend = ()\<rparr>
          [Attempt 0 (GasPriceReturns
             (Inr \<lparr>tx_Hash = 7, tx_Nonce = 0, tx_GasTipCap = 1, tx_GasFeeCap = 3\<rparr>)),
           Attempt 0 (SendTxReturns None),
           Attempt 0 (Polled \<lparr>receipt_reply = (Some \<lparr>TxHash = 7, BlockNumber = 100\<rparr>, None),
                              tip_reply = (104, None)\<rparr>),
           Tick,
           Attempt 0 (WaiterSelects False),
           Attempt 0 (Polled \<lparr>receipt_reply = (Some \<lparr>TxHash = 7, BlockNumber = 100\<rparr>, None),
                              tip_reply = (105, None)\<rparr>),
           Attempt 0 Delivers,
           ReceiptSelected] = Inr (Some d)
        \<and> Send_result d = Some (Some \<lparr>TxHash = 7, BlockNumber = 100\<rparr>, None))
   \<and> (\<exists>d. Send ''nonce too low''
          \<lparr>cfg = \<lparr>ResubmissionTimeout = 1, ReceiptQueryInterval = 1, NumConfirmations = 6,
                  SafeAbortNonceTooLowCount = 3\<rparr>, backend = ()\<rparr>
          [Attempt 0 (GasPriceReturns (Inl (GoError False ''oracle down''))),
           CtxDoneSelected] = Inr (Some d)
        \<and> Send_result d = Some (None, Some context_Canceled))"
proof -
  let ?m = "\<lparr>cfg = \<lparr>ResubmissionTimeout = 1, ReceiptQueryInterval = 1, NumConfirmations = 6,
                  SafeAbortNonceTooLowCount = 3\<rparr>, backend = ()\<rparr>"
  let ?r = "\<lparr>TxHash = 7, BlockNumber = 100\<rparr>"
  let ?evs1 = "[Attempt 0 (GasPriceReturns
             (Inr \<lparr>tx_Hash = 7, tx_Nonce = 0, tx_GasTipCap = 1, tx_GasFeeCap = 3\<rparr>)),
           Attempt 0 (SendTxReturns None),
           Attempt 0 (Polled \<lparr>receipt_reply = (Some ?r, None), tip_reply = (104, None)\<rparr>),
           Tick,
           Attempt 0 (WaiterSelects False),
           Attempt 0 (Polled \<lparr>receipt_reply = (Some ?r, None), tip_reply = (105, None)\<rparr>),
           Attempt 0 Delivers,
           ReceiptSelected]"
  let ?d1 = "\<lparr>sendState = \<lparr>minedTxs = {|7|}, nonceTooLowCount = 0, safeAbortNonceTooLowCount = 3\<rparr>,
          ctxc_err = Some context_Canceled, receiptChan = None, attempts = [Finished],
          returned = Some (Some ?r, None)\<rparr>"
  let ?evs2 = "[Attempt 0 (GasPriceReturns (Inl (GoError False ''oracle down''))), CtxDoneSelected]"
  let ?d2 = "\<lparr>sendState = \<lparr>minedTxs = {||}, nonceTooLowCount = 0, safeAbortNonceTooLowCount = 3\<rparr>,
          ctxc_err = Some context_Canceled, receiptChan = None, attempts = [Finished],
          returned = Some (None, Some context_Canceled)\<rparr>"
  have s1: "Send ''nonce too low'' ?m ?evs1 = Inr (Some ?d1)"
    by (simp add: Send_def NewSendState_def attempt_step_def waitMined_poll_def Uint64_def
        TxMined_def ProcessSendError_def IsWaitingForConfirmation_def fcard_finsert_if
        cancel_def Let_def)
  have r1: "returned ?d1 = Some (Some ?r, None)" by simp
  have s2: "Send ''nonce too low'' ?m ?evs2 = Inr (Some ?d2)"
    by (simp add: Send_def NewSendState_def attempt_step_def isCanceled_def cancel_def)
  have r2: "returned ?d2 = Some (None, Some context_Canceled)" by simp
  from Send_returns_receipt_or_cancellation [OF s1 r1]
    Send_returns_receipt_or_cancellation [OF s2 r2] s1 s2
  show ?thesis by (simp add: Send_result_def)
qed

text \<open>
  Claim C7. A tick of the main loop that finds \<open>IsWaitingForConfirmation\<close> true (that
  is, \<open>minedTxs\<close> not empty) leaves everything as it is; a tick that finds it false
  starts exactly one new attempt. No other step starts an attempt: the number of
  attempts grows, by one, only at a tick at which \<open>IsWaitingForConfirmation\<close> is false.
\<close>

theorem tick_spawns_iff_not_waiting:
  assumes "step n c ev d = Some d'"
  shows "(ev = Tick \<and> IsWaitingForConfirmation (sendState d) \<longrightarrow> d' = d)
       \<and> (ev = Tick \<and> \<not> IsWaitingForConfirmation (sendState d)
            \<longrightarrow> d' = d\<lparr>attempts := attempts d @ [AtUpdateGasPrice]\<rparr>)
       \<and> (length (attempts d') = length (attempts d) + 1
            \<longleftrightarrow> ev = Tick \<and> \<not> IsWaitingForConfirmation (sendState d))
       \<and> (length (attempts d') = length (attempts d)
            \<longleftrightarrow> \<not> (ev = Tick \<and> \<not> IsWaitingForConfirmation (sendState d)))
       \<and> (IsWaitingForConfirmation (sendState d) \<longleftrightarrow> minedTxs (sendState d) \<noteq> {||})"
proof (cases ev)
  case Tick
  with assms show ?thesis
    by (auto simp: IsWaitingForConfirmation_iff split: if_splits)
next
  case CtxDoneSelected
  with assms show ?thesis
    by (auto simp: IsWaitingForConfirmation_iff cancel_def split: if_splits option.splits)
next
  case ReceiptSelected
  with assms show ?thesis
    by (auto simp: IsWaitingForConfirmation_iff cancel_def split: if_splits option.splits)
next
  case (ParentDone e)
  with assms show ?thesis
    by (auto simp: IsWaitingForConfirmation_iff split: if_splits)
next
  case (Attempt i a)
  with assms obtain pc d1 where "attempt_step n c a (attempts d ! i) d = Some (pc, d1)"
    and "d' = d1\<lparr>attempts := (attempts d1)[i := pc]\<rparr>"
    by (auto split: if_splits option.splits)
  with attempt_step_attempts [OF this(1)] have "length (attempts d') = length (attempts d)"
    by simp
  with Attempt show ?thesis by (simp add: IsWaitingForConfirmation_iff)
qed

theorem tick_spawns_iff_not_waiting_witness:
  "step ''nonce too low''
     \<lparr>ResubmissionTimeout = 1, ReceiptQueryInterval = 1, NumConfirmations = 6,
      SafeAbortNonceTooLowCount = 3\<rparr> Tick
     \<lparr>sendState = \<lparr>minedTxs = {||}, nonceTooLowCount = 0, safeAbortNonceTooLowCount = 3\<rparr>,
      ctxc_err = None, receiptChan = None, attempts = [Finished], returned = None\<rparr>
   = Some \<lparr>sendState = \<lparr>minedTxs = {||}, nonceTooLowCount = 0, safeAbortNonceTooLowCount = 3\<rparr>,
      ctxc_err = None, receiptChan = None, attempts = [Finished, AtUpdateGasPrice],
      returned = None\<rparr>
   \<and> step ''nonce too low''
     \<lparr>ResubmissionTimeout = 1, ReceiptQueryInterval = 1, NumConfirmations = 6,
      SafeAbortNonceTooLowCount = 3\<rparr> Tick
     \<lparr>sendState = \<lparr>minedTxs = {|7|}, nonceTooLowCount = 0, safeAbortNonceTooLowCount = 3\<rparr>,
      ctxc_err = None, receiptChan = None,
      attempts = [AtSelect \<lparr>tx_Hash = 7, tx_Nonce = 0, tx_GasTipCap = 1, tx_GasFeeCap = 3\<rparr>],
      returned = None\<rparr>
   = Some \<lparr>sendState = \<lparr>minedTxs = {|7|}, nonceTooLowCount = 0, safeAbortNonceTooLowCount = 3\<rparr>,
      ctxc_err = None, receiptChan = None,
      attempts = [AtSelect \<lparr>tx_Hash = 7, tx_Nonce = 0, tx_GasTipCap = 1, tx_GasFeeCap = 3\<rparr>],
      returned = None\<rparr>"
proof -
  let ?c = "\<lparr>ResubmissionTimeout = 1, ReceiptQueryInterval = 1, NumConfirmations = 6,
      SafeAbortNonceTooLowCount = 3\<rparr>"
  let ?a = "\<lparr>sendState = \<lparr>minedTxs = {||}, nonceTooLowCount = 0, safeAbortNonceTooLowCount = 3\<rparr>,
      ctxc_err = None, receiptChan = None, attempts = [Finished], returned = None\<rparr>"
  let ?b = "\<lparr>sendState = \<lparr>minedTxs = {|7|}, nonceTooLowCount = 0, safeAbortNonceTooLowCount = 3\<rparr>,
      ctxc_err = None, receiptChan = None,
      attempts = [AtSelect \<lparr>tx_Hash = 7, tx_Nonce = 0, tx_GasTipCap = 1, tx_GasFeeCap = 3\<rparr>],
      returned = None\<rparr>"
  have a: "step ''nonce too low'' ?c Tick ?a = Some (?a\<lparr>attempts := [Finished, AtUpdateGasPrice]\<rparr>)"
    by (simp add: IsWaitingForConfirmation_def fcard_fempty)
  have b: "step ''nonce too low'' ?c Tick ?b = Some ?b"
    by (simp add: IsWaitingForConfirmation_def fcard_finsert_if)
  from tick_spawns_iff_not_waiting [OF a] tick_spawns_iff_not_waiting [OF b] a b
  show ?thesis by simp
qed

end
